theory Spec2Isabelle
  imports Complex_Main "HOL-Library.Sublist"
begin

section \<open>Python strings\<close>

text \<open>
  A Python \<open>str\<close> is modelled as a \<open>string\<close>: one \<open>char\<close> per code point, for the
  code points 0..255 (Latin-1).  The functions below are the \<open>str\<close> methods and builtins
  the repository calls, with CPython's behaviour on that range.
\<close>

definition py_isspace :: "char \<Rightarrow> bool" where
  \<comment> \<open>\<open>str.isspace\<close> on one character: TAB..CR, FS..US, SPACE, NEL, NBSP\<close>
  "py_isspace c =
     (let n = (of_char c :: nat)
      in (9 \<le> n \<and> n \<le> 13) \<or> (28 \<le> n \<and> n \<le> 32) \<or> n = 133 \<or> n = 160)"

definition py_strip :: "string \<Rightarrow> string" where
  \<comment> \<open>\<open>s.strip()\<close>\<close>
  "py_strip s = rev (dropWhile py_isspace (rev (dropWhile py_isspace s)))"

definition py_lower_char :: "char \<Rightarrow> char" where
  "py_lower_char c =
     (let n = (of_char c :: nat)
      in if (65 \<le> n \<and> n \<le> 90) \<or> (192 \<le> n \<and> n \<le> 222 \<and> n \<noteq> 215)
         then char_of (n + 32) else c)"

definition py_lower :: "string \<Rightarrow> string" where
  \<comment> \<open>\<open>s.lower()\<close>\<close>
  "py_lower s = map py_lower_char s"

fun py_split :: "char \<Rightarrow> string \<Rightarrow> string list" where
  \<comment> \<open>\<open>s.split(sep)\<close> for a one-character separator; \<open>''.split(sep) == ['']\<close>\<close>
  "py_split sep [] = [[]]"
| "py_split sep (x # xs) =
     (if x = sep then [] # py_split sep xs
      else (case py_split sep xs of
              [] \<Rightarrow> [[x]]
            | l # ls \<Rightarrow> (x # l) # ls))"

fun py_split_max :: "nat \<Rightarrow> char \<Rightarrow> string \<Rightarrow> string list" where
  \<comment> \<open>\<open>s.split(sep, maxsplit)\<close> for a one-character separator\<close>
  "py_split_max 0 sep s = [s]"
| "py_split_max (Suc n) sep [] = [[]]"
| "py_split_max (Suc n) sep (x # xs) =
     (if x = sep then [] # py_split_max n sep xs
      else (case py_split_max (Suc n) sep xs of
              [] \<Rightarrow> [[x]]
            | l # ls \<Rightarrow> (x # l) # ls))"

fun py_split_ws_from :: "string \<Rightarrow> string \<Rightarrow> string list" where
  \<comment> \<open>the word being read (reversed), then the rest of the text\<close>
  "py_split_ws_from cur [] = (if cur = [] then [] else [rev cur])"
| "py_split_ws_from cur (x # xs) =
     (if py_isspace x
      then (if cur = [] then py_split_ws_from [] xs else rev cur # py_split_ws_from [] xs)
      else py_split_ws_from (x # cur) xs)"

definition py_split_ws :: "string \<Rightarrow> string list" where
  \<comment> \<open>\<open>s.split()\<close>: the maximal runs of non-whitespace\<close>
  "py_split_ws s = py_split_ws_from [] s"

fun py_in :: "string \<Rightarrow> string \<Rightarrow> bool" where
  \<comment> \<open>\<open>needle in hay\<close> for strings\<close>
  "py_in needle [] = (needle = [])"
| "py_in needle (x # xs) = (prefix needle (x # xs) \<or> py_in needle xs)"

definition py_startswith :: "string \<Rightarrow> string \<Rightarrow> bool" where
  \<comment> \<open>\<open>s.startswith(p)\<close>\<close>
  "py_startswith s p = prefix p s"

definition py_endswith :: "string \<Rightarrow> string \<Rightarrow> bool" where
  \<comment> \<open>\<open>s.endswith(p)\<close>\<close>
  "py_endswith s p = suffix p s"

fun py_replace :: "string \<Rightarrow> string \<Rightarrow> string \<Rightarrow> string" where
  \<comment> \<open>\<open>s.replace(old, new)\<close> for a non-empty \<open>old\<close>: leftmost, non-overlapping\<close>
  "py_replace old new [] = []"
| "py_replace old new (x # xs) =
     (if old \<noteq> [] \<and> prefix old (x # xs)
      then new @ py_replace old new (drop (length old) (x # xs))
      else x # py_replace old new xs)"

definition digit_char :: "nat \<Rightarrow> char" where
  "digit_char d = char_of (48 + d)"

fun str_nat :: "nat \<Rightarrow> string" where
  "str_nat n = (if n < 10 then [digit_char n] else str_nat (n div 10) @ [digit_char (n mod 10)])"

definition str_int :: "int \<Rightarrow> string" where
  \<comment> \<open>\<open>str(i)\<close> and \<open>f"{i}"\<close> for an int\<close>
  "str_int i = (if i < 0 then CHR ''-'' # str_nat (nat (- i)) else str_nat (nat i))"

definition is_digit :: "char \<Rightarrow> bool" where
  "is_digit c = (let n = (of_char c :: nat) in 48 \<le> n \<and> n \<le> 57)"

definition digit_val :: "char \<Rightarrow> nat" where
  "digit_val c = of_char c - 48"

fun digits_value :: "nat \<Rightarrow> string \<Rightarrow> nat option" where
  \<comment> \<open>digits with single underscores between them, after a first digit was read\<close>
  "digits_value acc [] = Some acc"
| "digits_value acc [c] = (if is_digit c then Some (10 * acc + digit_val c) else None)"
| "digits_value acc (c # d # rest) =
     (if is_digit c then digits_value (10 * acc + digit_val c) (d # rest)
      else if c = CHR ''_'' \<and> is_digit d then digits_value acc (d # rest)
      else None)"

definition unsigned_value :: "string \<Rightarrow> nat option" where
  "unsigned_value s =
     (case s of
        [] \<Rightarrow> None
      | c # rest \<Rightarrow> (if is_digit c then digits_value (digit_val c) rest else None))"

definition int_literal :: "string \<Rightarrow> int option" where
  \<comment> \<open>the value \<open>int(s)\<close> returns, \<open>None\<close> where it raises ValueError:
      surrounding whitespace, an optional sign, decimal digits with single underscores
      between digits\<close>
  "int_literal s =
     (case py_strip s of
        [] \<Rightarrow> None
      | c # rest \<Rightarrow>
          (if c = CHR ''-'' then map_option (\<lambda>n. - int n) (unsigned_value rest)
           else if c = CHR ''+'' then map_option int (unsigned_value rest)
           else map_option int (unsigned_value (c # rest))))"

section \<open>Exceptions\<close>

text \<open>
  Exceptions are values.  Only instances of \<open>Exception\<close> are modelled (what an
  \<open>except Exception\<close> clause catches); the class is kept as far as some handler of the
  repository tells it apart, and the string is what \<open>str(e)\<close> returns.
\<close>

datatype exc_class = TimeoutExpired | SyntaxError | ValueError | IndexError | OtherException

datatype exn = Exn exc_class string

fun exn_class :: "exn \<Rightarrow> exc_class" where
  "exn_class (Exn c m) = c"

fun exn_str :: "exn \<Rightarrow> string" where
  "exn_str (Exn c m) = m"

section \<open>Schemas (src/core/schemas.py)\<close>

datatype Severity = CRITICAL | HIGH | MEDIUM | LOW | INFO

fun Severity_value :: "Severity \<Rightarrow> string" where
  "Severity_value CRITICAL = ''critical''"
| "Severity_value HIGH = ''high''"
| "Severity_value MEDIUM = ''medium''"
| "Severity_value LOW = ''low''"
| "Severity_value INFO = ''info''"

datatype AgentType = QUALITY | SECURITY | PERFORMANCE | DOCUMENTATION

fun AgentType_value :: "AgentType \<Rightarrow> string" where
  "AgentType_value QUALITY = ''quality''"
| "AgentType_value SECURITY = ''security''"
| "AgentType_value PERFORMANCE = ''performance''"
| "AgentType_value DOCUMENTATION = ''documentation''"


text \<open>Dynamically typed values (JSON documents, metadata entries); a dict keeps its
  insertion order.\<close>

datatype pyval =
    VNone
  | VBool bool
  | VInt int
  | VStr string
  | VList "pyval list"
  | VDict "(string \<times> pyval) list"

type_synonym pydict = "(string \<times> pyval) list"

fun dict_set :: "string \<Rightarrow> 'v \<Rightarrow> (string \<times> 'v) list \<Rightarrow> (string \<times> 'v) list" where
  \<comment> \<open>\<open>d[k] = v\<close>: an existing key keeps its place, a new one goes last\<close>
  "dict_set k v [] = [(k, v)]"
| "dict_set k v ((k', v') # rest) =
     (if k' = k then (k, v) # rest else (k', v') # dict_set k v rest)"

record Issue =
  severity :: Severity
  issue_type :: string
  message :: string
  line_number :: "int option"
  suggestion :: "string option"
  metadata :: "pydict option"

record AgentResult =
  agent_type :: AgentType
  success :: bool
  execution_time :: real
  issues :: "Issue list"
  error_message :: "string option"
  result_metadata :: "pydict option"

section \<open>The base agent (src/agents/base_agent.py)\<close>

definition get_metadata :: "AgentType \<Rightarrow> pydict" where
  \<comment> \<open>\<open>BaseAgent._get_metadata\<close>\<close>
  "get_metadata t = [(''agent_type'', VStr (AgentType_value t)), (''version'', VStr ''1.0.0'')]"

definition create_issue ::
  "Severity \<Rightarrow> string \<Rightarrow> string \<Rightarrow> int option \<Rightarrow> string option \<Rightarrow> pydict option \<Rightarrow> Issue" where
  \<comment> \<open>\<open>BaseAgent._create_issue\<close>; \<open>metadata or {}\<close> turns an absent or empty dict into \<open>{}\<close>\<close>
  "create_issue sev ty msg lineno sug md =
     \<lparr> severity = sev, issue_type = ty, message = msg, line_number = lineno, suggestion = sug,
       metadata = Some (case md of None \<Rightarrow> [] | Some d \<Rightarrow> d) \<rparr>"


section \<open>The orchestrator (src/core/orchestrator.py)\<close>




section \<open>The static-analysis wrappers (src/utils/static_analysis.py)\<close>

text \<open>
  What a wrapper reads from outside is a \<open>tool_env\<close>: \<open>write_temp code\<close> is the outcome of
  creating the temporary file and writing the code to it (the path, or the exception
  raised), \<open>subprocess_run argv\<close> the outcome of \<open>subprocess.run\<close> on that command line
  (the completed process, or the exception raised, \<open>TimeoutExpired\<close> after 30 seconds), and
  \<open>json_loads\<close> is \<open>json.loads\<close>.  \<open>os.unlink(temp_path)\<close> in the \<open>finally\<close> block
  deletes the file the wrapper has just created; it returns nothing and is taken to
  succeed, so the block hands on the result or the exception of its body.
\<close>

record completed_process =
  stdout :: string
  stderr :: string

record tool_env =
  write_temp :: "string \<Rightarrow> exn + string"
  subprocess_run :: "string list \<Rightarrow> exn + completed_process"
  json_loads :: "string \<Rightarrow> exn + pyval"

definition exn_bind :: "exn + 'a \<Rightarrow> ('a \<Rightarrow> exn + 'b) \<Rightarrow> exn + 'b" where
  \<comment> \<open>run the first step; go on with its value unless it raised\<close>
  "exn_bind m f = (case m of Inl e \<Rightarrow> Inl e | Inr x \<Rightarrow> f x)"

definition finally_unlink :: "string \<Rightarrow> exn + 'a \<Rightarrow> exn + 'a" where
  \<comment> \<open>\<open>try: body finally: os.unlink(temp_path)\<close>\<close>
  "finally_unlink temp_path body = body"

definition hex_digit :: "nat \<Rightarrow> char" where
  "hex_digit d = (if d < 10 then char_of (48 + d) else char_of (87 + d))"

definition py_repr_char :: "char \<Rightarrow> char \<Rightarrow> string" where
  \<comment> \<open>one character of \<open>repr(s)\<close>, inside the quote \<open>q\<close>\<close>
  "py_repr_char q c =
     (let n = (of_char c :: nat)
      in if c = q \<or> n = 92 then [CHR 0x5C, c]
         else if n = 9 then [CHR 0x5C, CHR ''t'']
         else if n = 10 then [CHR 0x5C, CHR ''n'']
         else if n = 13 then [CHR 0x5C, CHR ''r'']
         else if n < 32 \<or> (127 \<le> n \<and> n \<le> 160) \<or> n = 173
              then [CHR 0x5C, CHR ''x'', hex_digit (n div 16), hex_digit (n mod 16)]
         else [c])"

definition py_repr :: "string \<Rightarrow> string" where
  \<comment> \<open>\<open>repr(s)\<close> of a string: double quotes only when it has a single and no double quote\<close>
  "py_repr s =
     (let q = (if CHR 0x27 \<in> set s \<and> CHR 0x22 \<notin> set s then CHR 0x22 else CHR 0x27)
      in [q] @ concat (map (py_repr_char q) s) @ [q])"

definition py_int :: "string \<Rightarrow> exn + int" where
  \<comment> \<open>\<open>int(s)\<close>; the message shows at most 200 characters of the repr.  The limit on
      the number of digits of recent CPython versions is not modelled.\<close>
  "py_int s =
     (case int_literal s of
        Some i \<Rightarrow> Inr i
      | None \<Rightarrow> Inl (Exn ValueError
                  (''invalid literal for int() with base 10: '' @ take 200 (py_repr s))))"



definition handle_errors :: "(string \<Rightarrow> pydict) \<Rightarrow> exn + pydict \<Rightarrow> exn + pydict" where
  \<comment> \<open>the two handlers every wrapper ends with: \<open>except subprocess.TimeoutExpired\<close>, then
      \<open>except Exception as e\<close>; \<open>failure msg\<close> is the dictionary returned\<close>
  "handle_errors failure body =
     (case body of
        Inr d \<Rightarrow> Inr d
      | Inl e \<Rightarrow>
          (if exn_class e = TimeoutExpired then Inr (failure ''Timeout'')
           else Inr (failure (exn_str e))))"

definition failure_with_issues :: "string \<Rightarrow> pydict" where
  "failure_with_issues msg =
     [(''success'', VBool False), (''issues'', VList []), (''error'', VStr msg)]"



definition flake8_command :: "string \<Rightarrow> string list" where
  "flake8_command temp_path = [''flake8'', ''--format=json'', temp_path]"





definition flake8_issue :: "string list \<Rightarrow> exn + pyval" where
  \<comment> \<open>the dictionary built for a line of at least four parts; its values are evaluated in
      the order written\<close>
  "flake8_issue parts =
     exn_bind (py_int (parts ! 1)) (\<lambda>line_no.
     exn_bind (py_int (parts ! 2)) (\<lambda>column.
     exn_bind (if parts ! 3 \<noteq> []
               then (case py_split_ws (parts ! 3) of
                       [] \<Rightarrow> Inl (Exn IndexError ''list index out of range'')
                     | w # ws \<Rightarrow> Inr w)
               else Inr []) (\<lambda>code_field.
       Inr (VDict [(''path'', VStr (parts ! 0)), (''line'', VInt line_no),
                   (''column'', VInt column), (''code'', VStr code_field),
                   (''message'', VStr (if length (parts ! 3) > 0 then py_strip (parts ! 3)
                                       else []))]))))"

fun flake8_parse :: "pyval list \<Rightarrow> string list \<Rightarrow> exn + pyval list" where
  \<comment> \<open>the loop over the lines of stdout, \<open>found\<close> being the issues appended so far\<close>
  "flake8_parse found [] = Inr found"
| "flake8_parse found (line # rest) =
     (if line \<noteq> []
      then (let parts = py_split_max 3 CHR '':'' line
            in if length parts \<ge> 4
               then (case flake8_issue parts of
                       Inl e \<Rightarrow> Inl e
                     | Inr d \<Rightarrow> flake8_parse (found @ [d]) rest)
               else flake8_parse found rest)
      else flake8_parse found rest)"

definition run_flake8 :: "tool_env \<Rightarrow> string \<Rightarrow> string \<Rightarrow> exn + pydict" where
  "run_flake8 env code file_path =
     handle_errors failure_with_issues
       (exn_bind (write_temp env code) (\<lambda>temp_path.
          finally_unlink temp_path
            (exn_bind (subprocess_run env (flake8_command temp_path))
               (\<lambda>result.
                  exn_bind (if stdout result \<noteq> []
                            then flake8_parse [] (py_split CHR 0x0A (py_strip (stdout result)))
                            else Inr []) (\<lambda>found.
                    Inr [(''success'', VBool True), (''issues'', VList found),
                         (''output'', VStr (stderr result))])))))"



section \<open>The quality and performance agents: complexity (src/agents/quality_agent.py,
  src/agents/performance_agent.py)\<close>

text \<open>
  Both agents read the result of \<open>run_radon\<close>.  The complexity report is modelled at the
  types radon gives it: a dict from file paths to either a list of function descriptors
  or something that is not a list (radon reports a file it cannot parse as an error
  object); a descriptor is a dict whose \<open>name\<close> is a string and whose \<open>complexity\<close> and
  \<open>lineno\<close> are integers, each key possibly absent (the agents read them with \<open>.get\<close>).
  \<open>radon_success\<close> is the truth value of \<open>radon_results.get("success")\<close> and
  \<open>complexity_data\<close> is \<open>radon_results.get("complexity", {})\<close>.
\<close>

record radon_function =
  fn_name :: "string option"
  fn_complexity :: "int option"
  fn_lineno :: "int option"

datatype radon_entry = FunctionList "radon_function list" | NotAList

record radon_results =
  radon_success :: bool
  complexity_data :: "(string \<times> radon_entry) list"

definition get_complexity :: "radon_function \<Rightarrow> int" where
  \<comment> \<open>\<open>func.get("complexity", 0)\<close>\<close>
  "get_complexity func = (case fn_complexity func of None \<Rightarrow> 0 | Some c \<Rightarrow> c)"

definition get_name_or_unknown :: "radon_function \<Rightarrow> string" where
  \<comment> \<open>\<open>func.get('name', 'unknown')\<close>\<close>
  "get_name_or_unknown func = (case fn_name func of None \<Rightarrow> ''unknown'' | Some n \<Rightarrow> n)"

definition get_name :: "radon_function \<Rightarrow> pyval" where
  \<comment> \<open>\<open>func.get("name")\<close>\<close>
  "get_name func = (case fn_name func of None \<Rightarrow> VNone | Some n \<Rightarrow> VStr n)"

definition QualityAgent_function_issues :: "radon_function \<Rightarrow> Issue list" where
  \<comment> \<open>the body of the loop over the functions of one file, in \<open>QualityAgent.analyze\<close>\<close>
  "QualityAgent_function_issues func =
     (let complexity = get_complexity func
      in if complexity > 10
         then [create_issue MEDIUM ''high_complexity''
                 (''Function '' @ [CHR 0x27] @ get_name_or_unknown func @ [CHR 0x27]
                  @ '' has high complexity ('' @ str_int complexity @ '')'')
                 (fn_lineno func)
                 (Some ''Consider refactoring this function into smaller, more manageable pieces.'')
                 (Some [(''tool'', VStr ''radon''), (''complexity'', VInt complexity),
                        (''function'', get_name func)])]
         else [])"

definition QualityAgent_radon_issues :: "radon_results \<Rightarrow> Issue list" where
  \<comment> \<open>the issues \<open>QualityAgent.analyze\<close> appends after running radon\<close>
  "QualityAgent_radon_issues radon =
     (if radon_success radon
      then concat (map (\<lambda>(file_path_key, functions).
                          case functions of
                            FunctionList fs \<Rightarrow> concat (map QualityAgent_function_issues fs)
                          | NotAList \<Rightarrow> [])
                       (complexity_data radon))
      else [])"

definition PerformanceAgent_function_issues :: "radon_function \<Rightarrow> Issue list" where
  \<comment> \<open>the body of the loop over the functions of one file, in \<open>PerformanceAgent.analyze\<close>\<close>
  "PerformanceAgent_function_issues func =
     (let complexity = get_complexity func
      in if complexity > 15
         then [create_issue HIGH ''high_complexity''
                 (''Function '' @ [CHR 0x27] @ get_name_or_unknown func @ [CHR 0x27]
                  @ '' has very high complexity ('' @ str_int complexity
                  @ '') which may impact performance'')
                 (fn_lineno func)
                 (Some ''Refactor into smaller functions. Consider using caching or optimization techniques.'')
                 (Some [(''tool'', VStr ''radon''), (''complexity'', VInt complexity),
                        (''function'', get_name func)])]
         else [])"

definition PerformanceAgent_radon_issues :: "radon_results \<Rightarrow> Issue list" where
  \<comment> \<open>the issues \<open>PerformanceAgent.analyze\<close> appends after running radon\<close>
  "PerformanceAgent_radon_issues radon =
     (if radon_success radon
      then concat (map (\<lambda>(file_path_key, functions).
                          case functions of
                            FunctionList fs \<Rightarrow> concat (map PerformanceAgent_function_issues fs)
                          | NotAList \<Rightarrow> [])
                       (complexity_data radon))
      else [])"

definition report_functions :: "radon_results \<Rightarrow> radon_function list" where
  \<comment> \<open>every function entry of a report, in the order of the report\<close>
  "report_functions radon =
     concat (map (\<lambda>(file_path_key, functions).
                    case functions of FunctionList fs \<Rightarrow> fs | NotAList \<Rightarrow> [])
                 (complexity_data radon))"

section \<open>The security agent: insecure randomness (src/agents/security_agent.py)\<close>

definition random_pattern_search :: "string \<Rightarrow> bool" where
  \<comment> \<open>\<open>re.search(r'random\.(randint|choice|random)', line)\<close>: the pattern has no
      operator but the alternation, so it matches where one of three texts occurs\<close>
  "random_pattern_search line =
     (py_in ''random.randint'' line \<or> py_in ''random.choice'' line \<or> py_in ''random.random'' line)"

definition security_keywords :: "string list" where
  "security_keywords = [''password'', ''token'', ''key'', ''secret'', ''auth'']"

definition check_insecure_random :: "string \<Rightarrow> string \<Rightarrow> Issue list" where
  \<comment> \<open>\<open>SecurityAgent._check_insecure_random\<close>\<close>
  "check_insecure_random code file_path =
     (let lines = py_split CHR 0x0A code;
          uses_secrets = py_in ''secrets'' (py_lower code)
      in concat (map (\<lambda>(line_num, line).
                        if random_pattern_search line \<and> \<not> uses_secrets
                        then (if list_ex (\<lambda>keyword. py_in keyword (py_lower line)) security_keywords
                              then [create_issue HIGH ''insecure_random''
                                      ''Using random module for security-sensitive operations''
                                      (Some (int line_num))
                                      (Some ''Use secrets module for cryptographically secure random number generation.'')
                                      (Some [(''line'', VStr (py_strip line))])]
                              else [])
                        else [])
                     (enumerate 1 lines)))"

section \<open>The documentation agent (src/agents/documentation_agent.py)\<close>

text \<open>
  The syntax tree is what \<open>ast.parse\<close> returns, with the attributes the agent reads.
  \<open>docstring\<close> is the value of \<open>ast.get_docstring(node)\<close>, \<open>has_args\<close> the truth value of
  \<open>node.args.args\<close>, \<open>n_values\<close> the number of operands of a boolean operation.  An
  \<open>async def\<close> is not an \<open>ast.FunctionDef\<close>; it is an \<open>OtherNode\<close> here.  The parser is a
  parameter of \<open>analyze\<close>: it returns the tree or the exception \<open>ast.parse\<close> raises.
\<close>

datatype node_kind =
  FunctionDef | ClassDef | IfStmt | WhileStmt | ForStmt | ExceptHandler | BoolOp | OtherNode

record node_attrs =
  node_name :: string
  lineno :: int
  end_lineno :: int
  docstring :: "string option"
  has_args :: bool
  n_values :: nat

















section \<open>Persistence (src/database/models.py)\<close>

text \<open>
  The three tables the review routes use, a row as a record and a table as the list of
  its rows in insertion order.  A timestamp is a number of seconds.  The columns
  \<open>created_at\<close> and \<open>updated_at\<close> of \<open>repositories\<close> and \<open>created_at\<close> of
  \<open>review_results\<close>, which no route reads, are left out, as are the tables
  \<open>agent_metrics\<close> and \<open>feedback\<close>, which no code path writes.
\<close>

record Repository =
  repo_id :: nat
  repo_name :: string
  repo_url :: string
  repo_platform :: string
  repo_owner :: string

record Review =
  rev_id :: nat
  rev_repository_id :: nat
  rev_commit_sha :: "string option"
  rev_pull_request_id :: "int option"
  rev_file_path :: string
  rev_status :: string
  rev_created_at :: int
  rev_completed_at :: "int option"

record ReviewResult =
  res_id :: nat
  res_review_id :: nat
  res_agent_type :: string
  res_severity :: string
  res_issue_type :: string
  res_message :: string
  res_line_number :: "int option"
  res_suggestion :: "string option"
  res_meta_data :: "pydict option"

record database =
  repositories :: "Repository list"
  reviews :: "Review list"
  review_results :: "ReviewResult list"

text \<open>
  A session holds the committed state and the state inside the open transaction.  Every
  request gets a session of its own (\<open>get_db\<close>), opened on the committed state.  The
  operations of the session are taken to succeed.
\<close>

record session =
  committed :: database
  pending :: database

definition open_session :: "database \<Rightarrow> session" where
  "open_session db = \<lparr> committed = db, pending = db \<rparr>"

definition db_commit :: "session \<Rightarrow> session" where
  "db_commit s = s\<lparr> committed := pending s \<rparr>"

definition db_rollback :: "session \<Rightarrow> session" where
  "db_rollback s = s\<lparr> pending := committed s \<rparr>"

definition new_id :: "nat list \<Rightarrow> nat" where
  \<comment> \<open>the primary key given to a new row: one more than the largest key in the table\<close>
  "new_id ids = Suc (fold max ids 0)"

section \<open>The review routes (src/api/routes/reviews.py)\<close>

record ReviewRequest =
  req_repository_url :: string
  req_file_path :: "string option"
  req_commit_sha :: "string option"
  req_pull_request_id :: "int option"
  req_scan_entire_repo :: "bool option"
  req_agent_types :: "AgentType list option"

record ReviewResponse =
  resp_review_id :: nat
  resp_repository_url :: string
  resp_file_path :: string
  resp_status :: string
  resp_results :: "AgentResult list"
  resp_total_issues :: nat
  resp_created_at :: int
  resp_completed_at :: "int option"

record HTTPException =
  status_code :: nat
  detail :: string

text \<open>What leaves a block of the route by \<open>raise\<close>: an HTTPException or another exception.\<close>

datatype raised = RaisedHTTP HTTPException | RaisedOther exn

record repo_file =
  path_of :: string
  content_of :: string

text \<open>
  What \<open>create_review\<close> reads from outside: the local file system, the five operations
  of the GitHub integration (each returns its value or raises), the orchestrator's
  \<open>review_code\<close>, the two readings of \<open>datetime.utcnow()\<close> (for \<open>created_at\<close> and for
  \<open>completed_at\<close>), and the text that \<open>str(e)\<close> gives for an HTTPException.
\<close>

record route_env =
  os_path_exists :: "string \<Rightarrow> bool"
  read_file :: "string \<Rightarrow> exn + string"
  get_all_python_files :: "string \<Rightarrow> string option \<Rightarrow> exn + repo_file list"
  get_python_files_in_directory :: "string \<Rightarrow> string \<Rightarrow> string option \<Rightarrow> exn + repo_file list"
  get_file_content :: "string \<Rightarrow> string \<Rightarrow> string option \<Rightarrow> exn + string"
  get_commit_files :: "string \<Rightarrow> string \<Rightarrow> exn + repo_file list"
  get_pull_request_files :: "string \<Rightarrow> int \<Rightarrow> exn + repo_file list"
  orchestrator_review_code :: "string \<Rightarrow> string \<Rightarrow> AgentType list option \<Rightarrow> AgentResult list"
  utcnow_created :: int
  utcnow_completed :: int
  http_exception_str :: "HTTPException \<Rightarrow> string"

definition parse_repository_url :: "string \<Rightarrow> string \<times> string \<times> string" where
  \<comment> \<open>platform, owner and name of a repository that is not yet in the table\<close>
  "parse_repository_url url =
     (if py_in ''github.com'' url
      then (let parts = py_split CHR ''/'' (py_replace ''https://github.com/'' [] url)
            in (''github'',
                (if parts \<noteq> [] then parts ! 0 else ''unknown''),
                (if length parts > 1 then py_replace ''.git'' [] (parts ! 1) else ''unknown'')))
      else if py_in ''gitlab.com'' url
      then (let parts = py_split CHR ''/'' (py_replace ''https://gitlab.com/'' [] url)
            in (''gitlab'',
                (if parts \<noteq> [] then parts ! 0 else ''unknown''),
                (if length parts > 1 then py_replace ''.git'' [] (parts ! 1) else ''unknown'')))
      else (''unknown'', ''unknown'', ''unknown''))"

definition get_or_create_repository :: "session \<Rightarrow> string \<Rightarrow> Repository \<times> session" where
  \<comment> \<open>the first rows of \<open>create_review\<close>: the repository with this URL, added and
      committed when the table has none\<close>
  "get_or_create_repository db url =
     (case find (\<lambda>r. repo_url r = url) (repositories (pending db)) of
        Some repo \<Rightarrow> (repo, db)
      | None \<Rightarrow>
          (let (platform, owner, name) = parse_repository_url url;
               repo = \<lparr> repo_id = new_id (map repo_id (repositories (pending db))),
                        repo_name = name, repo_url = url, repo_platform = platform,
                        repo_owner = owner \<rparr>;
               p = pending db
           in (repo, db_commit (db\<lparr> pending := p\<lparr> repositories := repositories p @ [repo] \<rparr> \<rparr>))))"

definition add_review ::
  "session \<Rightarrow> Repository \<Rightarrow> ReviewRequest \<Rightarrow> string \<Rightarrow> int \<Rightarrow> Review \<times> session" where
  \<comment> \<open>\<open>review = Review(..., status="pending"); db.add(review); db.commit(); db.refresh(review)\<close>\<close>
  "add_review db repo request file_path_value now =
     (let p = pending db;
          review_row = \<lparr> rev_id = new_id (map rev_id (reviews p)),
                     rev_repository_id = repo_id repo,
                     rev_commit_sha = req_commit_sha request,
                     rev_pull_request_id = req_pull_request_id request,
                     rev_file_path = file_path_value, rev_status = ''pending'',
                     rev_created_at = now, rev_completed_at = None \<rparr>
      in (review_row, db_commit (db\<lparr> pending := p\<lparr> reviews := reviews p @ [review_row] \<rparr> \<rparr>)))"

definition complete_review :: "session \<Rightarrow> nat \<Rightarrow> int \<Rightarrow> session" where
  \<comment> \<open>\<open>review.status = "completed"; review.completed_at = datetime.utcnow(); db.commit()\<close>\<close>
  "complete_review db review_id now =
     (let p = pending db
      in db_commit (db\<lparr> pending := p\<lparr> reviews :=
           map (\<lambda>r. if rev_id r = review_id
                     then r\<lparr> rev_status := ''completed'', rev_completed_at := Some now \<rparr>
                     else r)
               (reviews p) \<rparr> \<rparr>))"

definition path_message :: "string \<Rightarrow> Issue \<Rightarrow> string" where
  \<comment> \<open>the message with \<open>[file_path]\<close> in front, unless it starts with it already\<close>
  "path_message file_path_item issue =
     (if \<not> py_startswith (message issue) (''['' @ file_path_item @ '']'')
      then ''['' @ file_path_item @ ''] '' @ message issue
      else message issue)"

definition path_metadata :: "string \<Rightarrow> Issue \<Rightarrow> pydict" where
  \<comment> \<open>\<open>issue.metadata.copy() if issue.metadata else {}\<close>, then \<open>["file_path"] = file_path\<close>\<close>
  "path_metadata file_path_item issue =
     dict_set ''file_path'' (VStr file_path_item)
       (case metadata issue of None \<Rightarrow> [] | Some d \<Rightarrow> d)"

definition issue_with_path :: "string \<Rightarrow> Issue \<Rightarrow> Issue" where
  "issue_with_path file_path_item issue =
     \<lparr> severity = severity issue, issue_type = issue_type issue,
       message = path_message file_path_item issue, line_number = line_number issue,
       suggestion = suggestion issue, metadata = Some (path_metadata file_path_item issue) \<rparr>"

definition add_review_result :: "session \<Rightarrow> nat \<Rightarrow> AgentResult \<Rightarrow> Issue \<Rightarrow> session" where
  \<comment> \<open>\<open>db.add(ReviewResult(...))\<close> for an issue that already carries its path\<close>
  "add_review_result db review_id result with_path =
     (let p = pending db;
          db_result = \<lparr> res_id = new_id (map res_id (review_results p)),
                        res_review_id = review_id,
                        res_agent_type = AgentType_value (agent_type result),
                        res_severity = Severity_value (severity with_path),
                        res_issue_type = issue_type with_path,
                        res_message = message with_path,
                        res_line_number = line_number with_path,
                        res_suggestion = suggestion with_path,
                        res_meta_data = metadata with_path \<rparr>
      in db\<lparr> pending := p\<lparr> review_results := review_results p @ [db_result] \<rparr> \<rparr>)"

text \<open>
  The aggregation of a multi-file scan: \<open>agent_results_dict\<close> maps an agent type to its
  issues, total time and success flag, in the order the agent types were first entered.
\<close>

record aggregate =
  agg_issues :: "Issue list"
  agg_total_time :: real
  agg_success :: bool

record scan_state =
  scan_db :: session
  total_issues :: nat
  agent_results_dict :: "(AgentType \<times> aggregate) list"

definition aggregate_issue ::
  "AgentResult \<Rightarrow> Issue \<Rightarrow> (AgentType \<times> aggregate) list \<Rightarrow> (AgentType \<times> aggregate) list" where
  \<comment> \<open>the statements under \<open># Aggregate by agent type\<close>, run once for every issue\<close>
  "aggregate_issue result with_path d =
     (let d1 = (if map_of d (agent_type result) = None
                then d @ [(agent_type result,
                           \<lparr> agg_issues = [], agg_total_time = 0, agg_success = True \<rparr>)]
                else d)
      in map (\<lambda>(k, a).
                if k = agent_type result
                then (k, a\<lparr> agg_issues := agg_issues a @ [with_path],
                            agg_total_time := agg_total_time a + execution_time result,
                            agg_success := (if \<not> success result then False else agg_success a) \<rparr>)
                else (k, a))
             d1)"

definition scan_issue :: "nat \<Rightarrow> string \<Rightarrow> AgentResult \<Rightarrow> Issue \<Rightarrow> scan_state \<Rightarrow> scan_state" where
  \<comment> \<open>the body of \<open>for issue in result.issues\<close>\<close>
  "scan_issue review_id file_path_item result issue st =
     (let with_path = issue_with_path file_path_item issue
      in \<lparr> scan_db = add_review_result (scan_db st) review_id result with_path,
            total_issues = total_issues st + 1,
            agent_results_dict = aggregate_issue result with_path (agent_results_dict st) \<rparr>)"

definition scan_result :: "nat \<Rightarrow> string \<Rightarrow> AgentResult \<Rightarrow> scan_state \<Rightarrow> scan_state" where
  \<comment> \<open>the body of \<open>for result in file_results\<close>\<close>
  "scan_result review_id file_path_item result st =
     fold (scan_issue review_id file_path_item result) (issues result) st"

definition request_agent_types :: "ReviewRequest \<Rightarrow> AgentType list option" where
  \<comment> \<open>\<open>request.agent_types or None\<close>\<close>
  "request_agent_types request =
     (case req_agent_types request of
        None \<Rightarrow> None
      | Some ts \<Rightarrow> (if ts = [] then None else Some ts))"

definition scan_file :: "route_env \<Rightarrow> ReviewRequest \<Rightarrow> nat \<Rightarrow> repo_file \<Rightarrow> scan_state \<Rightarrow> scan_state" where
  \<comment> \<open>the body of \<open>for idx, file_info in enumerate(all_files, 1)\<close>\<close>
  "scan_file env request review_id file_info st =
     (let file_code = content_of file_info;
          file_path_item = path_of file_info;
          file_results = orchestrator_review_code env file_code file_path_item
                           (request_agent_types request)
      in fold (scan_result review_id file_path_item) file_results st)"

definition aggregated_results :: "(AgentType \<times> aggregate) list \<Rightarrow> AgentResult list" where
  \<comment> \<open>\<open>for agent_type, data in agent_results_dict.items(): all_results.append(...)\<close>\<close>
  "aggregated_results d =
     map (\<lambda>(t, data). \<lparr> agent_type = t, success = agg_success data,
                          execution_time = agg_total_time data, issues = agg_issues data,
                          error_message = None, result_metadata = None \<rparr>)
         d"

definition scan_and_respond ::
  "route_env \<Rightarrow> session \<Rightarrow> Repository \<Rightarrow> ReviewRequest \<Rightarrow> repo_file list \<Rightarrow> string \<Rightarrow> string \<Rightarrow>
   ReviewResponse \<times> session" where
  \<comment> \<open>what the whole-repository scan and the directory scan do with the files to process:
      \<open>stored_path\<close> is the file_path of the Review row, \<open>shown_path\<close> that of the response\<close>
  "scan_and_respond env db repo request all_files stored_path shown_path =
     (let (review_row, db1) = add_review db repo request stored_path (utcnow_created env);
          st = fold (scan_file env request (rev_id review_row)) all_files
                 \<lparr> scan_db = db1, total_issues = 0, agent_results_dict = [] \<rparr>;
          all_results = aggregated_results (agent_results_dict st);
          db2 = complete_review (scan_db st) (rev_id review_row) (utcnow_completed env)
      in (\<lparr> resp_review_id = rev_id review_row,
             resp_repository_url = req_repository_url request,
             resp_file_path = shown_path, resp_status = ''completed'',
             resp_results = all_results, resp_total_issues = total_issues st,
             resp_created_at = rev_created_at review_row,
             resp_completed_at = Some (utcnow_completed env) \<rparr>, db2))"

definition max_files :: nat where
  "max_files = 50"

definition scan_entire_repo ::
  "route_env \<Rightarrow> session \<Rightarrow> Repository \<Rightarrow> ReviewRequest \<Rightarrow> (raised + ReviewResponse) \<times> session" where
  \<comment> \<open>the branch \<open>if request.scan_entire_repo\<close>\<close>
  "scan_entire_repo env db repo request =
     (case get_all_python_files env (req_repository_url request) (req_commit_sha request) of
        Inl e \<Rightarrow> (Inl (RaisedOther e), db)
      | Inr found \<Rightarrow>
          (if found = []
           then (Inl (RaisedHTTP \<lparr> status_code = 404,
                                    detail = ''No Python files found in repository.'' \<rparr>), db)
           else (let total_files_found = length found;
                     all_files = (if length found > max_files then take max_files found else found);
                     stored_path =
                       (if total_files_found > max_files
                        then ''Repository scan ('' @ str_int (int max_files) @ ''/''
                             @ str_int (int total_files_found) @ '' files)''
                        else ''Repository scan ('' @ str_int (int (length all_files)) @ '' files)'');
                     shown_path =
                       (if total_files_found > max_files
                        then ''Repository scan ('' @ str_int (int max_files) @ ''/''
                             @ str_int (int total_files_found) @ '' files processed)''
                        else ''Repository scan ('' @ str_int (int (length all_files)) @ '' files)'');
                     (response, db') = scan_and_respond env db repo request all_files
                                         stored_path shown_path
                 in (Inr response, db'))))"

definition value_error_as_404 :: "exn \<Rightarrow> raised" where
  \<comment> \<open>\<open>except ValueError as e: raise HTTPException(status_code=404, detail=str(e))\<close>\<close>
  "value_error_as_404 e =
     (if exn_class e = ValueError
      then RaisedHTTP \<lparr> status_code = 404, detail = exn_str e \<rparr>
      else RaisedOther e)"

definition scan_directory ::
  "route_env \<Rightarrow> session \<Rightarrow> Repository \<Rightarrow> ReviewRequest \<Rightarrow> string \<Rightarrow>
   (raised + ReviewResponse) \<times> session" where
  \<comment> \<open>the branch for a \<open>file_path\<close> that does not end in \<open>.py\<close>\<close>
  "scan_directory env db repo request file_path_input =
     (case get_python_files_in_directory env (req_repository_url request) file_path_input
             (req_commit_sha request) of
        Inl e \<Rightarrow> (Inl (value_error_as_404 e), db)
      | Inr found \<Rightarrow>
          (if found = []
           then (Inl (RaisedHTTP \<lparr> status_code = 404,
                                    detail = ''No Python files found in directory '' @ [CHR 0x27]
                                             @ file_path_input @ [CHR 0x27] @ ''.'' \<rparr>), db)
           else (let total_files_found = length found;
                     all_files = (if length found > max_files then take max_files found else found);
                     file_path_display =
                       (if total_files_found > max_files
                        then ''Directory scan: '' @ file_path_input @ '' (''
                             @ str_int (int max_files) @ ''/''
                             @ str_int (int total_files_found) @ '' files processed)''
                        else ''Directory scan: '' @ file_path_input @ '' (''
                             @ str_int (int (length all_files)) @ '' files)'');
                     (response, db') = scan_and_respond env db repo request all_files
                                         file_path_display file_path_display
                 in (Inr response, db'))))"

text \<open>The content resolution either returns the response of a scan or goes on with the
  code and the path of one file.\<close>

datatype fetched = Fetched string string | Responded ReviewResponse

definition truthy_str :: "string option \<Rightarrow> bool" where
  \<comment> \<open>the truth value of an optional string: present and not empty\<close>
  "truthy_str s = (case s of None \<Rightarrow> False | Some t \<Rightarrow> t \<noteq> [])"

definition first_file :: "repo_file list \<Rightarrow> string \<Rightarrow> (raised + fetched)" where
  \<comment> \<open>\<open>files[0]\<close> of a commit or a pull request, or the 404 with the given detail\<close>
  "first_file files not_found =
     (case files of
        f # fs \<Rightarrow> Inr (Fetched (content_of f) (path_of f))
      | [] \<Rightarrow> Inl (RaisedHTTP \<lparr> status_code = 404, detail = not_found \<rparr>))"

definition pull_request_not_found :: "int \<Rightarrow> HTTPException" where
  "pull_request_not_found n =
     \<lparr> status_code = 404,
       detail = ''Pull request #'' @ str_int n
                @ '' not found in this repository. Please check the PR number or use ''
                @ [CHR 0x27] @ ''file_path'' @ [CHR 0x27]
                @ '' field instead (leave PR ID empty).'' \<rparr>"

definition fetch_pull_request :: "route_env \<Rightarrow> ReviewRequest \<Rightarrow> int \<Rightarrow> raised + fetched" where
  \<comment> \<open>the pull-request branch: its \<open>except Exception\<close> also catches the HTTPException
      raised in that block for an empty file list\<close>
  "fetch_pull_request env request n =
     (let attempt =
            (case get_pull_request_files env (req_repository_url request) n of
               Inl e \<Rightarrow> Inl (RaisedOther e)
             | Inr files \<Rightarrow>
                 first_file files
                   (''No Python files found in pull request #'' @ str_int n
                    @ ''. Please use file_path instead.''))
      in case attempt of
           Inr f \<Rightarrow> Inr f
         | Inl r \<Rightarrow>
             (let error_msg = (case r of RaisedHTTP h \<Rightarrow> http_exception_str env h
                                        | RaisedOther e \<Rightarrow> exn_str e)
              in if py_in ''404'' error_msg \<or> py_in ''Not Found'' error_msg
                 then Inl (RaisedHTTP (pull_request_not_found n))
                 else Inl r))"

definition fetch_code ::
  "route_env \<Rightarrow> session \<Rightarrow> Repository \<Rightarrow> ReviewRequest \<Rightarrow> (raised + fetched) \<times> session" where
  \<comment> \<open>the statements of the inner \<open>try\<close> of \<open>create_review\<close>\<close>
  "fetch_code env db repo request =
     (if truthy_str (req_file_path request)
         \<and> \<not> py_startswith (req_repository_url request) ''http''
      then (if os_path_exists env (the (req_file_path request))
            then (case read_file env (the (req_file_path request)) of
                    Inl e \<Rightarrow> (Inl (RaisedOther e), db)
                  | Inr code \<Rightarrow> (Inr (Fetched code (the (req_file_path request))), db))
            else (Inl (RaisedHTTP \<lparr> status_code = 400,
                                     detail = ''Local file not found: ''
                                              @ the (req_file_path request) \<rparr>), db))
      else if req_repository_url request \<noteq> []
              \<and> py_startswith (req_repository_url request) ''http''
      then (if req_scan_entire_repo request = Some True
            then (case scan_entire_repo env db repo request of
                    (Inl r, db') \<Rightarrow> (Inl r, db')
                  | (Inr response, db') \<Rightarrow> (Inr (Responded response), db'))
            else if truthy_str (req_file_path request)
                    \<and> py_strip (the (req_file_path request)) \<noteq> []
            then (let file_path_input = py_strip (the (req_file_path request))
                  in if \<not> py_endswith file_path_input ''.py''
                     then (case scan_directory env db repo request file_path_input of
                             (Inl r, db') \<Rightarrow> (Inl r, db')
                           | (Inr response, db') \<Rightarrow> (Inr (Responded response), db'))
                     else (case get_file_content env (req_repository_url request)
                                  file_path_input (req_commit_sha request) of
                             Inl e \<Rightarrow> (Inl (value_error_as_404 e), db)
                           | Inr code \<Rightarrow>
                               (if code = [] \<or> py_strip code = []
                                then (Inl (RaisedHTTP \<lparr> status_code = 404,
                                        detail = ''File '' @ [CHR 0x27] @ file_path_input
                                                 @ [CHR 0x27]
                                                 @ '' is empty or could not be read from repository.'' \<rparr>),
                                      db)
                                else (Inr (Fetched code file_path_input), db))))
            else if truthy_str (req_commit_sha request)
                    \<and> py_strip (the (req_commit_sha request)) \<noteq> []
            then (case get_commit_files env (req_repository_url request)
                         (the (req_commit_sha request)) of
                    Inl e \<Rightarrow> (Inl (RaisedOther e), db)
                  | Inr files \<Rightarrow>
                      (first_file files (''No Python files found in commit ''
                                         @ the (req_commit_sha request)), db))
            else if (case req_pull_request_id request of None \<Rightarrow> False | Some n \<Rightarrow> n \<noteq> 0 \<and> n > 0)
            then (fetch_pull_request env request (the (req_pull_request_id request)), db)
            else (Inl (RaisedHTTP \<lparr> status_code = 400,
                    detail = ''For GitHub/GitLab repositories, please provide either: (1) file_path, or (2) commit_sha, or (3) pull_request_id. Leave other fields empty.'' \<rparr>),
                  db))
      else (Inl (RaisedHTTP \<lparr> status_code = 400,
              detail = ''Must provide either a local file_path or a repository_url with file_path/commit_sha/pull_request_id'' \<rparr>),
            db))"

definition save_issue :: "nat \<Rightarrow> string \<Rightarrow> AgentResult \<Rightarrow> Issue \<Rightarrow> session \<times> nat \<Rightarrow> session \<times> nat" where
  \<comment> \<open>single-file review: the row written for one issue, and the count of issues\<close>
  "save_issue review_id file_path_value result issue st =
     (add_review_result (fst st) review_id result (issue_with_path file_path_value issue),
      snd st + 1)"

definition review_single_file ::
  "route_env \<Rightarrow> session \<Rightarrow> Repository \<Rightarrow> ReviewRequest \<Rightarrow> string \<Rightarrow> string \<Rightarrow>
   ReviewResponse \<times> session" where
  \<comment> \<open>the rest of \<open>create_review\<close> after the content resolution; the issues of the response
      are the objects whose message and metadata the loop has updated\<close>
  "review_single_file env db repo request code file_path_value =
     (let (review_row, db1) = add_review db repo request file_path_value (utcnow_created env);
          results = orchestrator_review_code env code file_path_value (request_agent_types request);
          (db2, total) =
            fold (\<lambda>result st. fold (save_issue (rev_id review_row) file_path_value result)
                                  (issues result) st)
                 results (db1, 0);
          updated = map (\<lambda>result. result\<lparr> issues := map (issue_with_path file_path_value)
                                                       (issues result) \<rparr>) results;
          db3 = complete_review db2 (rev_id review_row) (utcnow_completed env)
      in (\<lparr> resp_review_id = rev_id review_row,
             resp_repository_url = req_repository_url request,
             resp_file_path = file_path_value, resp_status = ''completed'',
             resp_results = updated, resp_total_issues = total,
             resp_created_at = rev_created_at review_row,
             resp_completed_at = Some (utcnow_completed env) \<rparr>, db3))"

definition create_review ::
  "route_env \<Rightarrow> database \<Rightarrow> ReviewRequest \<Rightarrow> (HTTPException + ReviewResponse) \<times> database" where
  \<comment> \<open>\<open>POST /reviews\<close>: the response or the HTTPException raised, and the committed state
      of the database afterwards.  An exception of the inner block that is not an
      HTTPException becomes a 400.  The statements outside the inner block are operations
      of the session and the call of the orchestrator, which do not raise here, so the
      outer handler (rollback and a 500) has no branch.\<close>
  "create_review env db0 request =
     (let (repo, db1) = get_or_create_repository (open_session db0) (req_repository_url request)
      in case fetch_code env db1 repo request of
           (Inl (RaisedHTTP h), db2) \<Rightarrow> (Inl h, committed db2)
         | (Inl (RaisedOther e), db2) \<Rightarrow>
             (Inl \<lparr> status_code = 400, detail = ''Error fetching code: '' @ exn_str e \<rparr>,
              committed db2)
         | (Inr (Responded response), db2) \<Rightarrow> (Inr response, committed db2)
         | (Inr (Fetched code file_path_value), db2) \<Rightarrow>
             (let (response, db3) = review_single_file env db2 repo request code file_path_value
              in (Inr response, committed db3)))"










section \<open>Example inputs\<close>

text \<open>
  Concrete inputs for the instances below.  \<open>offline_env\<close> is an environment with no local
  file and no GitHub token (every operation of the integration raises the ValueError
  it raises then); its orchestrator reports nothing.  \<open>two_file_env\<close> is a repository of
  two files: for \<open>a.py\<close> the quality agent succeeds in half a second with two issues, for
  \<open>b.py\<close> it fails after a quarter of a second (its \<open>analyze\<close> raised, so it has no issues).
\<close>

definition empty_database :: database where
  "empty_database = \<lparr> repositories = [], reviews = [], review_results = [] \<rparr>"

definition offline_env :: route_env where
  "offline_env =
     \<lparr> os_path_exists = (\<lambda>p. False),
       read_file = (\<lambda>p. Inl (Exn OtherException ''No such file or directory'')),
       get_all_python_files = (\<lambda>url ref. Inl (Exn ValueError ''GitHub token not configured'')),
       get_python_files_in_directory =
         (\<lambda>url dir ref. Inl (Exn ValueError ''GitHub token not configured'')),
       get_file_content = (\<lambda>url p ref. Inl (Exn ValueError ''GitHub token not configured'')),
       get_commit_files = (\<lambda>url sha. Inl (Exn ValueError ''GitHub token not configured'')),
       get_pull_request_files = (\<lambda>url n. Inl (Exn ValueError ''GitHub token not configured'')),
       orchestrator_review_code = (\<lambda>code p ts. []),
       utcnow_created = 100,
       utcnow_completed = 101,
       http_exception_str = (\<lambda>h. str_int (int (status_code h)) @ '': '' @ detail h) \<rparr>"


definition missing_docstring :: Issue where
  "missing_docstring =
     \<lparr> severity = LOW, issue_type = ''C0114'', message = ''Missing docstring'',
       line_number = Some 1, suggestion = Some ''Add docstring'', metadata = Some [] \<rparr>"

definition unused_import :: Issue where
  "unused_import =
     \<lparr> severity = MEDIUM, issue_type = ''W0611'', message = ''Unused import'',
       line_number = Some 2, suggestion = None, metadata = None \<rparr>"

definition two_file_env :: route_env where
  "two_file_env =
     offline_env
       \<lparr> get_all_python_files :=
           (\<lambda>url ref. Inr [\<lparr> path_of = ''a.py'', content_of = ''import os'' \<rparr>,
                           \<lparr> path_of = ''b.py'', content_of = ''x = 1'' \<rparr>]),
         orchestrator_review_code :=
           (\<lambda>code p ts.
              if p = ''a.py''
              then [\<lparr> agent_type = QUALITY, success = True, execution_time = 1 / 2,
                      issues = [missing_docstring, unused_import],
                      error_message = None,
                      result_metadata = Some (get_metadata QUALITY) \<rparr>]
              else [\<lparr> agent_type = QUALITY, success = False, execution_time = 1 / 4,
                      issues = [], error_message = Some ''boom'',
                      result_metadata = Some (get_metadata QUALITY) \<rparr>]) \<rparr>"

definition scan_request :: ReviewRequest where
  "scan_request =
     \<lparr> req_repository_url = ''https://github.com/test/repo'', req_file_path = None,
       req_commit_sha = None, req_pull_request_id = None, req_scan_entire_repo = Some True,
       req_agent_types = Some [QUALITY] \<rparr>"

section \<open>Verified properties\<close>

subsection \<open>The base agent\<close>




subsection \<open>The orchestrator\<close>














subsection \<open>The static-analysis wrappers\<close>

lemma handle_errors_total: "\<exists>d. handle_errors failure body = Inr d"
  by (simp add: handle_errors_def split: sum.splits)

lemma handle_errors_raised:
  "body = Inl e \<Longrightarrow>
   handle_errors failure body =
     Inr (failure (if exn_class e = TimeoutExpired then ''Timeout'' else exn_str e))"
  by (simp add: handle_errors_def)






lemma run_flake8_parse:
  "write_temp env code = Inr p \<Longrightarrow> subprocess_run env (flake8_command p) = Inr r \<Longrightarrow>
   stdout r \<noteq> [] \<Longrightarrow> flake8_parse [] (py_split CHR 0x0A (py_strip (stdout r))) = Inl e \<Longrightarrow>
   run_flake8 env code file_path =
     Inr (failure_with_issues (if exn_class e = TimeoutExpired then ''Timeout'' else exn_str e))"
  unfolding run_flake8_def
  by (rule handle_errors_raised) (simp add: exn_bind_def finally_unlink_def)














lemma flake8_issue_bad_int:
  "int_literal (parts ! 1) = None \<or> int_literal (parts ! 2) = None \<Longrightarrow>
   \<exists>m. flake8_issue parts = Inl (Exn ValueError m)"
  by (auto simp: flake8_issue_def exn_bind_def py_int_def split: option.splits)

lemma flake8_parse_bad_int:
  "line \<in> set lines \<Longrightarrow> 4 \<le> length (py_split_max 3 CHR '':'' line) \<Longrightarrow>
   int_literal (py_split_max 3 CHR '':'' line ! 1) = None
     \<or> int_literal (py_split_max 3 CHR '':'' line ! 2) = None \<Longrightarrow>
   \<exists>e. flake8_parse found lines = Inl e \<and> exn_class e \<noteq> TimeoutExpired"
proof (induction lines arbitrary: found)
  case Nil
  then show ?case by simp
next
  case (Cons l ls)
  show ?case
  proof (cases "l = line")
    case True
    from Cons.prems(2) have ne: "line \<noteq> []" by (auto simp: numeral_3_eq_3)
    from flake8_issue_bad_int [OF Cons.prems(3)] obtain m
      where "flake8_issue (py_split_max 3 CHR '':'' line) = Inl (Exn ValueError m)" ..
    with True ne Cons.prems(2) show ?thesis by (simp add: Let_def)
  next
    case False
    with Cons.prems(1) have mem: "line \<in> set ls" by simp
    have ih: "\<And>found. \<exists>e. flake8_parse found ls = Inl e \<and> exn_class e \<noteq> TimeoutExpired"
      by (rule Cons.IH [OF mem Cons.prems(2) Cons.prems(3)])
    have cls: "\<And>e. flake8_issue (py_split_max 3 CHR '':'' l) = Inl e \<Longrightarrow> exn_class e \<noteq> TimeoutExpired"
      by (auto simp: flake8_issue_def exn_bind_def py_int_def split: option.splits list.splits if_splits)
    show ?thesis
      using ih cls by (auto simp: Let_def split: sum.splits)
  qed
qed

lemma flake8_parse_skips:
  "\<forall>line \<in> set lines. length (py_split_max 3 CHR '':'' line) < 4 \<Longrightarrow>
   flake8_parse found lines = Inr found"
  by (induction lines arbitrary: found) (auto simp: Let_def)



text \<open>
  Claim C10.  In \<open>run_flake8\<close> a line of stdout is skipped silently only when it splits
  into fewer than four colon-separated parts.  Whenever some line of the output has four
  parts and its line or column field is not an integer literal, \<open>int()\<close> raises inside
  the loop and the whole call returns \<open>{success: False, issues: [], error: msg}\<close>: the
  findings already parsed from well-formed lines are lost.
\<close>

theorem run_flake8_bad_int:
  assumes "write_temp env code = Inr p"
    and "subprocess_run env (flake8_command p) = Inr r"
    and "stdout r \<noteq> []"
    and "line \<in> set (py_split CHR 0x0A (py_strip (stdout r)))"
    and "4 \<le> length (py_split_max 3 CHR '':'' line)"
    and "int_literal (py_split_max 3 CHR '':'' line ! 1) = None
           \<or> int_literal (py_split_max 3 CHR '':'' line ! 2) = None"
  shows "(\<exists>msg. run_flake8 env code file_path =
             Inr [(''success'', VBool False), (''issues'', VList []), (''error'', VStr msg)])
         \<and> ((\<forall>l \<in> set ls. length (py_split_max 3 CHR '':'' l) < 4) \<longrightarrow>
               flake8_parse found ls = Inr found)"
proof -
  from flake8_parse_bad_int [OF assms(4) assms(5) assms(6)] obtain e
    where e: "flake8_parse [] (py_split CHR 0x0A (py_strip (stdout r))) = Inl e"
      and "exn_class e \<noteq> TimeoutExpired" by blast
  from run_flake8_parse [OF assms(1) assms(2) assms(3) e]
  have "\<exists>msg. run_flake8 env code file_path =
             Inr [(''success'', VBool False), (''issues'', VList []), (''error'', VStr msg)]"
    by (simp add: failure_with_issues_def)
  moreover have "(\<forall>l \<in> set ls. length (py_split_max 3 CHR '':'' l) < 4) \<longrightarrow>
               flake8_parse found ls = Inr found"
    using flake8_parse_skips [of ls found] by blast
  ultimately show ?thesis by simp
qed

theorem run_flake8_bad_int_witness:
  "(\<exists>msg. run_flake8
       \<lparr> write_temp = (\<lambda>c. Inr ''/tmp/tmpab12.py''),
         subprocess_run = (\<lambda>argv. Inr \<lparr> stdout = ''a.py:1:1: E302 expected 2 blank lines\<newline>a.py:x:1: E501 line too long\<newline>'', stderr = [] \<rparr>),
         json_loads = (\<lambda>s. Inr VNone) \<rparr> ''x = 1'' ''a.py''
      = Inr [(''success'', VBool False), (''issues'', VList []), (''error'', VStr msg)])
   \<and> flake8_parse [] [''a.py:1:1: E302 expected 2 blank lines'']
      = Inr [VDict [(''path'', VStr ''a.py''), (''line'', VInt 1), (''column'', VInt 1),
                    (''code'', VStr ''E302''),
                    (''message'', VStr ''E302 expected 2 blank lines'')]]"
proof -
  let ?out = "''a.py:1:1: E302 expected 2 blank lines\<newline>a.py:x:1: E501 line too long\<newline>''"
  let ?r = "\<lparr> stdout = ?out, stderr = [] \<rparr>"
  let ?env = "\<lparr> write_temp = (\<lambda>c. Inr ''/tmp/tmpab12.py''),
                 subprocess_run = (\<lambda>argv. Inr ?r), json_loads = (\<lambda>s. Inr VNone) \<rparr>"
  have h1: "write_temp ?env ''x = 1'' = Inr ''/tmp/tmpab12.py''" by simp
  have h2: "subprocess_run ?env (flake8_command ''/tmp/tmpab12.py'') = Inr ?r" by simp
  have h3: "stdout ?r \<noteq> []" by simp
  have h4: "''a.py:x:1: E501 line too long'' \<in> set (py_split CHR 0x0A (py_strip (stdout ?r)))"
    by code_simp
  have h5: "4 \<le> length (py_split_max 3 CHR '':'' ''a.py:x:1: E501 line too long'')"
    by code_simp
  have h6: "int_literal (py_split_max 3 CHR '':'' ''a.py:x:1: E501 line too long'' ! 1) = None
           \<or> int_literal (py_split_max 3 CHR '':'' ''a.py:x:1: E501 line too long'' ! 2) = None"
    by code_simp
  have first: "flake8_parse [] [''a.py:1:1: E302 expected 2 blank lines'']
      = Inr [VDict [(''path'', VStr ''a.py''), (''line'', VInt 1), (''column'', VInt 1),
                    (''code'', VStr ''E302''),
                    (''message'', VStr ''E302 expected 2 blank lines'')]]"
    by code_simp
  from run_flake8_bad_int [OF h1 h2 h3 h4 h5 h6, of "''a.py''" "[]" "[]"] first
  show ?thesis by simp
qed

subsection \<open>The quality and performance agents\<close>

lemma concat_entries:
  "concat (map (\<lambda>(file_path_key, functions).
                  case functions of FunctionList fs \<Rightarrow> concat (map f fs) | NotAList \<Rightarrow> [])
               entries)
   = concat (map f (concat (map (\<lambda>(file_path_key, functions).
                                  case functions of FunctionList fs \<Rightarrow> fs | NotAList \<Rightarrow> [])
                               entries)))"
  by (induction entries) (auto split: radon_entry.splits)

lemma quality_function_issues:
  "QualityAgent_function_issues func =
     (if 10 < get_complexity func
      then [\<lparr> severity = MEDIUM, issue_type = ''high_complexity'',
              message = ''Function '' @ [CHR 0x27] @ get_name_or_unknown func @ [CHR 0x27]
                  @ '' has high complexity ('' @ str_int (get_complexity func) @ '')'',
              line_number = fn_lineno func,
              suggestion = Some ''Consider refactoring this function into smaller, more manageable pieces.'',
              metadata = Some [(''tool'', VStr ''radon''), (''complexity'', VInt (get_complexity func)),
                        (''function'', get_name func)] \<rparr>]
      else [])"
  by (simp add: QualityAgent_function_issues_def create_issue_def Let_def)

lemma performance_function_issues:
  "PerformanceAgent_function_issues func =
     (if 15 < get_complexity func
      then [\<lparr> severity = HIGH, issue_type = ''high_complexity'',
              message = ''Function '' @ [CHR 0x27] @ get_name_or_unknown func @ [CHR 0x27]
                  @ '' has very high complexity ('' @ str_int (get_complexity func)
                  @ '') which may impact performance'',
              line_number = fn_lineno func,
              suggestion = Some ''Refactor into smaller functions. Consider using caching or optimization techniques.'',
              metadata = Some [(''tool'', VStr ''radon''), (''complexity'', VInt (get_complexity func)),
                        (''function'', get_name func)] \<rparr>]
      else [])"
  by (simp add: PerformanceAgent_function_issues_def create_issue_def Let_def)

text \<open>
  Claim C5.  For a function entry of a successful radon report, with complexity
  \<open>func.get("complexity", 0)\<close>: the quality agent emits exactly one issue for it, of type
  \<open>high_complexity\<close> and severity MEDIUM, when the complexity is strictly greater than 10
  and none otherwise; the performance agent emits exactly one issue for it, of type
  \<open>high_complexity\<close> and severity HIGH, when the complexity is strictly greater than 15
  and none otherwise.  The issues each agent derives from a successful report are those
  of its function entries, in the order of the report.
\<close>

theorem complexity_thresholds:
  "((\<exists>i. QualityAgent_function_issues func = [i] \<and> severity i = MEDIUM
          \<and> issue_type i = ''high_complexity'') \<longleftrightarrow> 10 < get_complexity func)
   \<and> (QualityAgent_function_issues func = [] \<longleftrightarrow> get_complexity func \<le> 10)
   \<and> ((\<exists>i. PerformanceAgent_function_issues func = [i] \<and> severity i = HIGH
          \<and> issue_type i = ''high_complexity'') \<longleftrightarrow> 15 < get_complexity func)
   \<and> (PerformanceAgent_function_issues func = [] \<longleftrightarrow> get_complexity func \<le> 15)
   \<and> (radon_success radon \<longrightarrow>
         QualityAgent_radon_issues radon
           = concat (map QualityAgent_function_issues (report_functions radon))
         \<and> PerformanceAgent_radon_issues radon
           = concat (map PerformanceAgent_function_issues (report_functions radon)))"
proof -
  have q1: "(\<exists>i. QualityAgent_function_issues func = [i] \<and> severity i = MEDIUM
          \<and> issue_type i = ''high_complexity'') \<longleftrightarrow> 10 < get_complexity func"
    by (simp add: quality_function_issues)
  have q2: "QualityAgent_function_issues func = [] \<longleftrightarrow> get_complexity func \<le> 10"
    by (auto simp add: quality_function_issues)
  have p1: "(\<exists>i. PerformanceAgent_function_issues func = [i] \<and> severity i = HIGH
          \<and> issue_type i = ''high_complexity'') \<longleftrightarrow> 15 < get_complexity func"
    by (simp add: performance_function_issues)
  have p2: "PerformanceAgent_function_issues func = [] \<longleftrightarrow> get_complexity func \<le> 15"
    by (auto simp add: performance_function_issues)
  have r: "radon_success radon \<longrightarrow>
         QualityAgent_radon_issues radon
           = concat (map QualityAgent_function_issues (report_functions radon))
         \<and> PerformanceAgent_radon_issues radon
           = concat (map PerformanceAgent_function_issues (report_functions radon))"
    by (simp add: QualityAgent_radon_issues_def PerformanceAgent_radon_issues_def
          report_functions_def concat_entries)
  from q1 q2 p1 p2 r show ?thesis by (intro conjI) assumption+
qed

theorem complexity_thresholds_witness:
  "QualityAgent_function_issues \<lparr> fn_name = Some ''f'', fn_complexity = Some 10, fn_lineno = Some 3 \<rparr> = []
   \<and> (\<exists>i. QualityAgent_function_issues \<lparr> fn_name = Some ''f'', fn_complexity = Some 11, fn_lineno = Some 3 \<rparr> = [i]
          \<and> severity i = MEDIUM \<and> issue_type i = ''high_complexity'')
   \<and> PerformanceAgent_function_issues \<lparr> fn_name = Some ''f'', fn_complexity = Some 15, fn_lineno = Some 3 \<rparr> = []
   \<and> (\<exists>i. PerformanceAgent_function_issues \<lparr> fn_name = Some ''f'', fn_complexity = Some 16, fn_lineno = Some 3 \<rparr> = [i]
          \<and> severity i = HIGH \<and> issue_type i = ''high_complexity'')"
  using complexity_thresholds [of "\<lparr> fn_name = Some ''f'', fn_complexity = Some 10, fn_lineno = Some 3 \<rparr>"]
    complexity_thresholds [of "\<lparr> fn_name = Some ''f'', fn_complexity = Some 11, fn_lineno = Some 3 \<rparr>"]
    complexity_thresholds [of "\<lparr> fn_name = Some ''f'', fn_complexity = Some 15, fn_lineno = Some 3 \<rparr>"]
    complexity_thresholds [of "\<lparr> fn_name = Some ''f'', fn_complexity = Some 16, fn_lineno = Some 3 \<rparr>"]
  by (simp add: get_complexity_def)

subsection \<open>The security agent\<close>

lemma py_in_sublist: "py_in needle hay \<longleftrightarrow> sublist needle hay"
proof (induction hay)
  case Nil
  then show ?case by simp
next
  case (Cons x xs)
  then show ?case by (cases needle) (simp_all add: sublist_Cons_right)
qed

lemma py_in_middle: "py_in needle (pre @ needle @ post)"
  by (simp add: py_in_sublist)

lemma enumerate_guarded_set:
  "i \<in> set (concat (map (\<lambda>(k, x). if P x then [g k x] else []) (enumerate m xs)))
     \<longleftrightarrow> (\<exists>j < length xs. P (xs ! j) \<and> i = g (m + j) (xs ! j))"
proof (induction xs arbitrary: m)
  case Nil
  then show ?case by simp
next
  case (Cons x xs)
  let ?F = "\<lambda>(k, x). if P x then [g k x] else []"
  have "i \<in> set (concat (map ?F (enumerate m (x # xs))))
          \<longleftrightarrow> (P x \<and> i = g m x) \<or> i \<in> set (concat (map ?F (enumerate (Suc m) xs)))"
    by auto
  also have "\<dots> \<longleftrightarrow> (P x \<and> i = g m x)
                  \<or> (\<exists>j < length xs. P (xs ! j) \<and> i = g (Suc m + j) (xs ! j))"
    unfolding Cons.IH ..
  also have "\<dots> \<longleftrightarrow> (\<exists>j < length (x # xs). P ((x # xs) ! j) \<and> i = g (m + j) ((x # xs) ! j))"
    by (auto simp: less_Suc_eq_0_disj)
  finally show ?case .
qed

lemma insecure_random_form:
  "check_insecure_random code file_path =
     concat (map (\<lambda>(line_num, line).
                    if random_pattern_search line
                       \<and> list_ex (\<lambda>keyword. py_in keyword (py_lower line)) security_keywords
                       \<and> \<not> py_in ''secrets'' (py_lower code)
                    then [\<lparr> severity = HIGH, issue_type = ''insecure_random'',
                            message = ''Using random module for security-sensitive operations'',
                            line_number = Some (int line_num),
                            suggestion = Some ''Use secrets module for cryptographically secure random number generation.'',
                            metadata = Some [(''line'', VStr (py_strip line))] \<rparr>]
                    else [])
                 (enumerate 1 (py_split CHR 0x0A code)))"
  unfolding check_insecure_random_def Let_def create_issue_def
  by (rule arg_cong [where f = concat], rule map_cong) auto

text \<open>
  Claim C6.  \<open>_check_insecure_random\<close> emits an issue with line number \<open>n\<close> exactly when
  line \<open>n\<close> of the code matches \<open>random.randint\<close>, \<open>random.choice\<close> or \<open>random.random\<close>,
  its lower-cased text contains one of the five keywords, and the lower-cased text of
  the whole file does not contain \<open>secrets\<close>.  Every issue it emits is HIGH and of type
  \<open>insecure_random\<close>.  A file that contains \<open>secrets\<close> anywhere, in any letter case, gets
  no such issue.
\<close>

theorem insecure_random_iff:
  "((\<exists>i \<in> set (check_insecure_random code file_path). line_number i = Some n)
      \<longleftrightarrow> 1 \<le> n \<and> n \<le> int (length (py_split CHR 0x0A code))
          \<and> random_pattern_search (py_split CHR 0x0A code ! nat (n - 1))
          \<and> (\<exists>keyword \<in> set [''password'', ''token'', ''key'', ''secret'', ''auth''].
                py_in keyword (py_lower (py_split CHR 0x0A code ! nat (n - 1))))
          \<and> \<not> py_in ''secrets'' (py_lower code))
   \<and> (\<forall>i \<in> set (check_insecure_random code file_path).
         severity i = HIGH \<and> issue_type i = ''insecure_random'')
   \<and> (py_lower word = ''secrets'' \<longrightarrow> check_insecure_random (pre @ word @ post) file_path = [])"
proof -
  let ?lines = "py_split CHR 0x0A code"
  let ?P = "\<lambda>line. random_pattern_search line
                       \<and> list_ex (\<lambda>keyword. py_in keyword (py_lower line)) security_keywords
                       \<and> \<not> py_in ''secrets'' (py_lower code)"
  let ?g = "\<lambda>line_num line. \<lparr> severity = HIGH, issue_type = ''insecure_random'',
                            message = ''Using random module for security-sensitive operations'',
                            line_number = Some (int line_num),
                            suggestion = Some ''Use secrets module for cryptographically secure random number generation.'',
                            metadata = Some [(''line'', VStr (py_strip line))] \<rparr>"
  have mem: "\<And>i. i \<in> set (check_insecure_random code file_path)
               \<longleftrightarrow> (\<exists>j < length ?lines. ?P (?lines ! j) \<and> i = ?g (1 + j) (?lines ! j))"
    unfolding insecure_random_form by (rule enumerate_guarded_set)
  have a: "(\<exists>i \<in> set (check_insecure_random code file_path). line_number i = Some n)
      \<longleftrightarrow> 1 \<le> n \<and> n \<le> int (length ?lines)
          \<and> random_pattern_search (?lines ! nat (n - 1))
          \<and> (\<exists>keyword \<in> set [''password'', ''token'', ''key'', ''secret'', ''auth''].
                py_in keyword (py_lower (?lines ! nat (n - 1))))
          \<and> \<not> py_in ''secrets'' (py_lower code)"
  proof
    assume "\<exists>i \<in> set (check_insecure_random code file_path). line_number i = Some n"
    then obtain j where j: "j < length ?lines" "?P (?lines ! j)" "n = int (1 + j)"
      by (auto simp: mem)
    from j(3) have "nat (n - 1) = j" by simp
    with j show "1 \<le> n \<and> n \<le> int (length ?lines)
          \<and> random_pattern_search (?lines ! nat (n - 1))
          \<and> (\<exists>keyword \<in> set [''password'', ''token'', ''key'', ''secret'', ''auth''].
                py_in keyword (py_lower (?lines ! nat (n - 1))))
          \<and> \<not> py_in ''secrets'' (py_lower code)"
      by (simp add: security_keywords_def list_ex_iff)
  next
    assume r: "1 \<le> n \<and> n \<le> int (length ?lines)
          \<and> random_pattern_search (?lines ! nat (n - 1))
          \<and> (\<exists>keyword \<in> set [''password'', ''token'', ''key'', ''secret'', ''auth''].
                py_in keyword (py_lower (?lines ! nat (n - 1))))
          \<and> \<not> py_in ''secrets'' (py_lower code)"
    let ?j = "nat (n - 1)"
    from r have j1: "?j < length ?lines" by linarith
    from r have "?P (?lines ! ?j)" "n = int (1 + ?j)"
      by (simp_all add: security_keywords_def list_ex_iff)
    note j1 this
    then have "?g (1 + ?j) (?lines ! ?j) \<in> set (check_insecure_random code file_path)"
      unfolding mem by blast
    moreover have "line_number (?g (1 + ?j) (?lines ! ?j)) = Some n"
      using \<open>n = int (1 + ?j)\<close> by simp
    ultimately show "\<exists>i \<in> set (check_insecure_random code file_path). line_number i = Some n"
      by blast
  qed
  have b: "\<forall>i \<in> set (check_insecure_random code file_path).
         severity i = HIGH \<and> issue_type i = ''insecure_random''"
    by (auto simp: mem)
  have c: "py_lower word = ''secrets'' \<longrightarrow> check_insecure_random (pre @ word @ post) file_path = []"
  proof
    assume w: "py_lower word = ''secrets''"
    have "py_in ''secrets'' (py_lower (pre @ word @ post))"
      using py_in_middle [of "''secrets''" "py_lower pre" "py_lower post"] w
      by (simp add: py_lower_def)
    then show "check_insecure_random (pre @ word @ post) file_path = []"
      by (simp add: insecure_random_form)
  qed
  from a b c show ?thesis by (intro conjI) assumption+
qed

theorem insecure_random_iff_witness:
  "(\<exists>i \<in> set (check_insecure_random
        ''import random\<newline>token = random.randint(0, 9)\<newline>x = random.random()'' ''a.py'').
      line_number i = Some 2)
   \<and> check_insecure_random
        (''import '' @ ''secrets'' @ ''\<newline>import random\<newline>token = random.randint(0, 9)'') ''a.py''
      = []"
proof -
  let ?code = "''import random\<newline>token = random.randint(0, 9)\<newline>x = random.random()''"
  have rhs: "(1::int) \<le> 2 \<and> 2 \<le> int (length (py_split CHR 0x0A ?code))
          \<and> random_pattern_search (py_split CHR 0x0A ?code ! nat (2 - 1))
          \<and> (\<exists>keyword \<in> set [''password'', ''token'', ''key'', ''secret'', ''auth''].
                py_in keyword (py_lower (py_split CHR 0x0A ?code ! nat (2 - 1))))
          \<and> \<not> py_in ''secrets'' (py_lower ?code)"
    by code_simp
  have w: "py_lower ''secrets'' = ''secrets''" by code_simp
  from insecure_random_iff [of ?code "''a.py''" 2 "''secrets''" "''import ''"
      "''\<newline>import random\<newline>token = random.randint(0, 9)''"] rhs w
  show ?thesis by blast
qed

subsection \<open>The documentation agent\<close>



subsection \<open>The review routes\<close>









text \<open>
  Claim C1 does not hold of the code.  The aggregation statements of a scan stand inside
  the loop over the issues of a result, so they run once per issue, and never for a
  result without issues.  In the scan of \<open>two_file_env\<close> the quality agent takes 1/2
  second on \<open>a.py\<close> (success, two issues) and 1/4 second on \<open>b.py\<close> (failure, no issue):
  the merged result of the response has execution time 1 (twice the time of \<open>a.py\<close>),
  not 3/4, and success \<open>True\<close>, not \<open>False\<close>.
\<close>

theorem scan_aggregates_per_issue:
  "orchestrator_review_code two_file_env ''import os'' ''a.py'' (Some [QUALITY])
     = [\<lparr> agent_type = QUALITY, success = True, execution_time = 1 / 2,
          issues = [missing_docstring, unused_import], error_message = None,
          result_metadata = Some (get_metadata QUALITY) \<rparr>]
   \<and> orchestrator_review_code two_file_env ''x = 1'' ''b.py'' (Some [QUALITY])
     = [\<lparr> agent_type = QUALITY, success = False, execution_time = 1 / 4,
          issues = [], error_message = Some ''boom'',
          result_metadata = Some (get_metadata QUALITY) \<rparr>]
   \<and> fst (create_review two_file_env empty_database scan_request)
     = Inr \<lparr> resp_review_id = 1,
             resp_repository_url = ''https://github.com/test/repo'',
             resp_file_path = ''Repository scan (2 files)'',
             resp_status = ''completed'',
             resp_results =
               [\<lparr> agent_type = QUALITY, success = True, execution_time = 1,
                  issues =
                    [\<lparr> severity = LOW, issue_type = ''C0114'',
                       message = ''[a.py] Missing docstring'', line_number = Some 1,
                       suggestion = Some ''Add docstring'',
                       metadata = Some [(''file_path'', VStr ''a.py'')] \<rparr>,
                     \<lparr> severity = MEDIUM, issue_type = ''W0611'',
                       message = ''[a.py] Unused import'', line_number = Some 2,
                       suggestion = None,
                       metadata = Some [(''file_path'', VStr ''a.py'')] \<rparr>],
                  error_message = None, result_metadata = None \<rparr>],
             resp_total_issues = 2, resp_created_at = 100,
             resp_completed_at = Some 101 \<rparr>"
  by code_simp

end
